theory Spec2Isabelle
  imports Main "HOL-Library.Sublist"
begin

section \<open>JavaScript values used by the routes\<close>

text \<open>
  A JavaScript string is its sequence of UTF-16 code units, here integers (a code unit
  lies between 0 and 65535); \<open>js\<close> writes an ASCII literal of the source. A value that may be \<open>undefined\<close> or \<open>null\<close> is an
  option; the empty string is falsy, as in the source's \<open>a || b\<close> and \<open>!a\<close>. A text field
  of a form or of a JSON body is a string or absent; a number in a JSON body is given by
  its \<open>String()\<close> form, which is what \<open>parseInt\<close> reads.
\<close>

type_synonym jstring = "int list"

definition js :: "string \<Rightarrow> jstring" where
  "js s = map of_char s"

definition truthy :: "jstring option \<Rightarrow> bool" where
  "truthy v = (case v of None \<Rightarrow> False | Some s \<Rightarrow> s \<noteq> [])"

definition js_or :: "jstring option \<Rightarrow> jstring option \<Rightarrow> jstring option" where
  "js_or a b = (if truthy a then a else b)"


text \<open>
  The white space and line terminators of ECMAScript, which \<open>trim\<close>, \<open>\s\<close> and \<open>parseInt\<close>
  share: TAB, LF, VT, FF, CR, SPACE, U+00A0, U+1680, U+2000 to U+200A, U+2028, U+2029,
  U+202F, U+205F, U+3000 and U+FEFF.
\<close>

definition isSpace :: "int \<Rightarrow> bool" where
  "isSpace c =
     (c \<in> set [9, 10, 11, 12, 13, 32, 160, 5760, 8232, 8233, 8239, 8287, 12288, 65279]
      \<or> (8192 \<le> c \<and> c \<le> 8202))"

definition isDigit :: "int \<Rightarrow> bool" where
  "isDigit c = (48 \<le> c \<and> c \<le> 57)"

definition trim :: "jstring \<Rightarrow> jstring" where
  "trim s = rev (dropWhile isSpace (rev (dropWhile isSpace s)))"

text \<open>\<open>s.split(" ")\<close>: the pieces between single spaces; the empty string gives one empty piece.\<close>

fun split_space :: "jstring \<Rightarrow> jstring list" where
  "split_space [] = [[]]"
| "split_space (c # cs) =
     (if c = 32 then [] # split_space cs
      else (case split_space cs of [] \<Rightarrow> [[c]] | p # ps \<Rightarrow> (c # p) # ps))"

definition nth_opt :: "'a list \<Rightarrow> nat \<Rightarrow> 'a option" where
  "nth_opt xs i = (if i < length xs then Some (xs ! i) else None)"

definition digits_value :: "jstring \<Rightarrow> int" where
  "digits_value ds = foldl (\<lambda>a c. 10 * a + (c - 48)) 0 ds"

text \<open>
  A JavaScript number that \<open>parseInt\<close> can return: \<open>NaN\<close>, an infinity, or a finite double
  whose value is an integer.
\<close>

datatype jsnum = NaN | Infinite | Finite int

function bit_length :: "int \<Rightarrow> nat" where
  "bit_length n = (if n \<le> 0 then 0 else Suc (bit_length (n div 2)))"
  by pat_completeness auto
termination
  by (relation "measure nat") auto

declare bit_length.simps [simp del]

text \<open>
  The double nearest to a non-negative integer, ties to the even significand of 53 bits;
  past the largest double the result is infinite (\<open>None\<close>). Up to 2^53 every integer is
  a double.
\<close>

definition to_double :: "int \<Rightarrow> int option" where
  "to_double n =
     (if n < 2 ^ 53 then Some n
      else (let e = bit_length n - 53;
                q = n div 2 ^ e;
                r = n mod 2 ^ e;
                q' = (if 2 ^ e < 2 * r \<or> (2 * r = 2 ^ e \<and> odd q) then q + 1 else q)
            in if q' * 2 ^ e < 2 ^ 1024 then Some (q' * 2 ^ e) else None))"

text \<open>
  \<open>parseInt(s, 10)\<close>: leading white space is skipped, one sign is read, then the longest
  run of decimal digits; no digit gives \<open>NaN\<close>, and the digits' value is rounded to a
  double, so a run whose value is past the largest double gives an infinity.
\<close>

definition parseInt :: "jstring \<Rightarrow> jsnum" where
  "parseInt s =
     (let t = dropWhile isSpace s;
          neg = (case t of [] \<Rightarrow> False | c # _ \<Rightarrow> c = 45);
          u = (case t of [] \<Rightarrow> [] | c # r \<Rightarrow> if c = 45 \<or> c = 43 then r else t);
          z = takeWhile isDigit u
      in if z = [] then NaN
         else (case to_double (digits_value z) of
                 None \<Rightarrow> Infinite
               | Some v \<Rightarrow> Finite (if neg then - v else v)))"

text \<open>\<open>parseInt(v, 10)\<close> of a body field: an absent field is \<open>undefined\<close>, which has no digit.\<close>

definition parseIntField :: "jstring option \<Rightarrow> jsnum" where
  "parseIntField v = (case v of None \<Rightarrow> NaN | Some s \<Rightarrow> parseInt s)"

text \<open>\<open>Number.isInteger\<close> and \<open>Number.isFinite\<close> agree on what \<open>parseInt\<close> returns.\<close>

definition isInteger :: "jsnum \<Rightarrow> bool" where
  "isInteger x = (case x of Finite _ \<Rightarrow> True | _ \<Rightarrow> False)"

section \<open>The relational datastore\<close>

datatype db_error = ConnectionError | UniqueViolation | NumericOutOfRange

record user_row =
  u_id :: int
  u_name :: "jstring option"
  u_email :: "jstring option"
  u_auth_user_id :: jstring

record playlist_row =
  pl_id :: int
  pl_user_id :: int
  pl_name :: jstring

record song_row =
  ps_playlist_id :: int
  ps_track_id :: int
  ps_added_at :: nat

record track_row =
  t_id :: int
  t_title :: jstring
  t_artist_name :: jstring
  t_uploader_name :: "jstring option"
  t_storage_key :: jstring
  t_public_url :: "jstring option"
  t_cover_path :: "jstring option"
  t_cover_url :: "jstring option"
  t_size_bytes :: "int option"
  t_mime_type :: "jstring option"
  t_auth_user_id :: "jstring option"
  t_user_id :: "int option"
  t_created_at :: nat

text \<open>
  The tables the routes touch. \<open>online\<close> is whether a query reaches the database: with it
  false every query throws, as \<open>db.js\<close> rethrows the driver's error. \<open>db_clock\<close> is what
  \<open>NOW()\<close> returns; the two sequences generate the row ids.
\<close>

record datastore =
  online :: bool
  db_clock :: nat
  users :: "user_row list"
  users_seq :: int
  playlists :: "playlist_row list"
  playlist_songs :: "song_row list"
  tracks :: "track_row list"
  tracks_seq :: int

text \<open>
  Modelled from the spec: the schema is not among the sources; the spec's data model
  types the ids, the legacy user id and the byte size as integers, taken here as
  PostgreSQL's \<open>integer\<close>. The server refuses a parameter for such a column that is
  outside this range, and the query throws.
\<close>

definition pg_integer :: "int \<Rightarrow> bool" where
  "pg_integer n = (- 2147483648 \<le> n \<and> n \<le> 2147483647)"


text \<open>\<open>SELECT id FROM users WHERE auth_user_id = $1 LIMIT 1\<close>\<close>

definition q_select_user_id :: "datastore \<Rightarrow> jstring \<Rightarrow> db_error + int list" where
  "q_select_user_id d s =
     (if \<not> online d then Inl ConnectionError
      else (case find (\<lambda>r. u_auth_user_id r = s) (users d) of
              None \<Rightarrow> Inr []
            | Some r \<Rightarrow> Inr [u_id r]))"

text \<open>
  Modelled from the spec: the schema of \<open>users\<close> is not among the sources; the spec's data
  model makes \<open>auth_subject\<close> unique, so a second row for a subject is a duplicate-key
  violation. The statement is
  \<open>INSERT INTO users (name, email, auth_user_id) VALUES ($1,$2,$3) RETURNING id\<close>.
\<close>

definition q_insert_user ::
  "datastore \<Rightarrow> jstring option \<Rightarrow> jstring option \<Rightarrow> jstring \<Rightarrow> db_error + (int list \<times> datastore)" where
  "q_insert_user d n e s =
     (if \<not> online d then Inl ConnectionError
      else if s \<in> set (map u_auth_user_id (users d)) then Inl UniqueViolation
      else (let i = users_seq d + 1 in
            Inr ([i], d\<lparr>users := users d @ [\<lparr>u_id = i, u_name = n, u_email = e, u_auth_user_id = s\<rparr>],
                        users_seq := i\<rparr>)))"

text \<open>\<open>SELECT user_id FROM playlists WHERE id = $1 LIMIT 1\<close>\<close>

definition q_select_playlist_owner :: "datastore \<Rightarrow> int \<Rightarrow> db_error + int list" where
  "q_select_playlist_owner d pid =
     (if \<not> online d then Inl ConnectionError
      else if \<not> pg_integer pid then Inl NumericOutOfRange
      else (case find (\<lambda>r. pl_id r = pid) (playlists d) of
              None \<Rightarrow> Inr []
            | Some r \<Rightarrow> Inr [pl_user_id r]))"

definition is_member :: "datastore \<Rightarrow> int \<Rightarrow> int \<Rightarrow> bool" where
  "is_member d pid tid = ((pid, tid) \<in> set (map (\<lambda>r. (ps_playlist_id r, ps_track_id r)) (playlist_songs d)))"

definition membership :: "datastore \<Rightarrow> (int \<times> int) set" where
  "membership d = set (map (\<lambda>r. (ps_playlist_id r, ps_track_id r)) (playlist_songs d))"

text \<open>
  Modelled from the spec: the schema of \<open>playlist_songs\<close> is not among the sources; the
  spec lets a membership row refer to a track that is gone, so no referential check is
  made. The statement is
  \<open>INSERT INTO playlist_songs (playlist_id, track_id, added_at) VALUES ($1,$2,NOW())
   ON CONFLICT (playlist_id, track_id) DO NOTHING RETURNING *\<close>;
  its conflict target is the unique pair it names.
\<close>

definition q_insert_playlist_song ::
  "datastore \<Rightarrow> int \<Rightarrow> int \<Rightarrow> db_error + (song_row list \<times> datastore)" where
  "q_insert_playlist_song d pid tid =
     (if \<not> online d then Inl ConnectionError
      else if \<not> (pg_integer pid \<and> pg_integer tid) then Inl NumericOutOfRange
      else if is_member d pid tid then Inr ([], d)
      else (let r = \<lparr>ps_playlist_id = pid, ps_track_id = tid, ps_added_at = db_clock d\<rparr> in
            Inr ([r], d\<lparr>playlist_songs := playlist_songs d @ [r]\<rparr>)))"

text \<open>\<open>DELETE FROM playlist_songs WHERE playlist_id = $1 AND track_id = $2\<close>, with its row count.\<close>

definition q_delete_playlist_song :: "datastore \<Rightarrow> int \<Rightarrow> int \<Rightarrow> db_error + (nat \<times> datastore)" where
  "q_delete_playlist_song d pid tid =
     (if \<not> online d then Inl ConnectionError
      else if \<not> (pg_integer pid \<and> pg_integer tid) then Inl NumericOutOfRange
      else Inr (length (filter (\<lambda>r. ps_playlist_id r = pid \<and> ps_track_id r = tid) (playlist_songs d)),
                d\<lparr>playlist_songs :=
                    filter (\<lambda>r. \<not> (ps_playlist_id r = pid \<and> ps_track_id r = tid)) (playlist_songs d)\<rparr>))"

section \<open>Requests, collaborators and responses\<close>

record upload_file =
  originalname :: "jstring option"
  mimetype :: "jstring option"
  file_size :: nat

record request =
  h_authorization :: "jstring option"
  c_authorization :: "jstring option"
  c_token :: "jstring option"
  c_user :: "jstring option"
  p_playlistId :: jstring
  b_trackId :: "jstring option"
  b_title :: "jstring option"
  b_artist_name :: "jstring option"
  b_artist :: "jstring option"
  b_uploader_name :: "jstring option"
  b_userId :: "jstring option"
  f_audio :: "upload_file option"
  f_cover :: "upload_file option"

text \<open>The identity provider's user: \<open>user.id\<close>, \<open>user.user_metadata.name\<close>, \<open>user.email\<close>.\<close>

record profile =
  sub :: jstring
  meta_name :: "jstring option"
  email :: "jstring option"

text \<open>
  \<open>supabase.auth.getUser(token)\<close> either rejects or answers \<open>{data: {user}, error}\<close>.
\<close>

datatype auth_response = Rejected | Answer "profile option" bool

datatype put_result = PutFailed | PutOk "jstring option"

datatype cookie_json = JsonThrows | JsonUser "jstring option" "jstring option"

datatype io_handle = IoAbsent | IoPresent | IoThrows

text \<open>
  The collaborators of a request: the identity provider, the object store
  (\<open>putObject bucket key\<close>: the upload failed, or the public URL it gives), \<open>JSON.parse\<close> of
  the user cookie (it throws, also on reading a field of \<open>null\<close>, or gives the \<open>name\<close> and
  \<open>email\<close> fields), the Socket.IO server registered under \<open>"io"\<close>, and \<open>Date.now()\<close>.
\<close>

record env =
  getUser :: "jstring \<Rightarrow> auth_response"
  putObject :: "string \<Rightarrow> jstring \<Rightarrow> put_result"
  json_parse :: "jstring \<Rightarrow> cookie_json"
  io :: io_handle
  date_now :: nat

record track =
  tr_id :: int
  tr_title :: jstring
  tr_artist_name :: jstring
  tr_uploader_name :: "jstring option"
  tr_public_url :: "jstring option"
  tr_cover_url :: "jstring option"
  tr_storage_key :: "jstring option"
  tr_size_bytes :: "int option"
  tr_mime_type :: "jstring option"
  tr_created_at :: nat
  tr_auth_user_id :: "jstring option"
  tr_user_id :: "int option"

datatype update_flag = Added bool | Removed bool

datatype event = PlaylistUpdated int int update_flag | NewTrack track

datatype json_body =
    Error string
  | ErrorDetail string
  | AddResult bool bool
  | RemoveResult bool nat
  | Uploaded string track

datatype response = Response nat json_body

text \<open>
  What a request can change: the datastore, the events broadcast so far and the
  object-store uploads attempted so far (bucket and key).
\<close>

record world =
  db :: datastore
  emitted :: "event list"
  store_calls :: "(string \<times> jstring) list"

text \<open>\<open>io.emit\<close> inside its \<open>try\<close>: nothing is sent without a server, or when the call throws.\<close>

definition emit :: "env \<Rightarrow> event \<Rightarrow> world \<Rightarrow> world" where
  "emit e ev w = (case io e of IoPresent \<Rightarrow> w\<lparr>emitted := emitted w @ [ev]\<rparr> | _ \<Rightarrow> w)"

section \<open>routes/playlists.js\<close>

subsection \<open>getLocalUserIdFromToken\<close>

definition bearer_token :: "request \<Rightarrow> jstring option" where
  "bearer_token req =
     (let authHeader = js_or (js_or (h_authorization req) (c_authorization req)) (c_token req)
      in js_or (case authHeader of None \<Rightarrow> None | Some h \<Rightarrow> nth_opt (split_space h) 1) authHeader)"

text \<open>
  The token exchanged with the provider: \<open>data.user\<close> when the call neither rejects nor
  reports an error, else the function returns \<open>null\<close>.
\<close>

definition token_profile :: "env \<Rightarrow> request \<Rightarrow> profile option" where
  "token_profile e req =
     (case bearer_token req of
        None \<Rightarrow> None
      | Some token \<Rightarrow>
          if token = [] then None
          else (case getUser e token of
                  Rejected \<Rightarrow> None
                | Answer u err \<Rightarrow> if err then None else u))"

text \<open>
  The function awaits twice on the datastore. Up to the first answer it either settles
  (\<open>Resolved\<close>: an id, or \<open>null\<close>) or has seen no row for the subject (\<open>Unseen\<close>) and goes on
  to the insert. Other requests can run between the two awaits. A query that throws is
  caught by the function's \<open>try\<close>, which returns \<open>null\<close>.
\<close>

datatype lookup_result = Resolved "int option" | Unseen profile

definition resolve_lookup :: "env \<Rightarrow> request \<Rightarrow> datastore \<Rightarrow> lookup_result" where
  "resolve_lookup e req d =
     (case token_profile e req of
        None \<Rightarrow> Resolved None
      | Some p \<Rightarrow>
          (case q_select_user_id d (sub p) of
             Inl _ \<Rightarrow> Resolved None
           | Inr [] \<Rightarrow> Unseen p
           | Inr (i # _) \<Rightarrow> Resolved (Some i)))"

definition resolve_insert :: "profile \<Rightarrow> datastore \<Rightarrow> int option \<times> datastore" where
  "resolve_insert p d =
     (case q_insert_user d (js_or (meta_name p) None) (js_or (email p) None) (sub p) of
        Inl _ \<Rightarrow> (None, d)
      | Inr ([], d') \<Rightarrow> (None, d')
      | Inr (i # _, d') \<Rightarrow> (Some i, d'))"

definition getLocalUserIdFromToken :: "env \<Rightarrow> request \<Rightarrow> datastore \<Rightarrow> int option \<times> datastore" where
  "getLocalUserIdFromToken e req d =
     (case resolve_lookup e req d of
        Resolved r \<Rightarrow> (r, d)
      | Unseen p \<Rightarrow> resolve_insert p d)"

subsection \<open>handleAddTrack and handleRemoveTrack\<close>

text \<open>
  The handlers after \<open>getLocalUserIdFromToken\<close> has answered \<open>userId\<close>. The test
  \<open>!userId\<close> sends \<open>null\<close> and the number 0 to the 401 response. The two ids go on only
  when \<open>Number.isInteger\<close> holds of both, that is when both are finite.
\<close>

definition addTrack_as :: "env \<Rightarrow> int option \<Rightarrow> request \<Rightarrow> world \<Rightarrow> response \<times> world" where
  "addTrack_as e userId req w =
     (case userId of
        None \<Rightarrow> (Response 401 (Error ''Unauthorized''), w)
      | Some uid \<Rightarrow>
          if uid = 0 then (Response 401 (Error ''Unauthorized''), w)
          else (case (parseInt (p_playlistId req), parseIntField (b_trackId req)) of
                  (Finite playlistId, Finite trackId) \<Rightarrow>
                    (case q_select_playlist_owner (db w) playlistId of
                       Inl _ \<Rightarrow> (Response 500 (Error ''Failed to add track to playlist''), w)
                     | Inr [] \<Rightarrow> (Response 403 (Error ''Forbidden''), w)
                     | Inr (owner # _) \<Rightarrow>
                         if owner \<noteq> uid then (Response 403 (Error ''Forbidden''), w)
                         else (case q_insert_playlist_song (db w) playlistId trackId of
                                 Inl _ \<Rightarrow> (Response 500 (Error ''Failed to add track to playlist''), w)
                               | Inr (rows, d') \<Rightarrow>
                                   (Response 200 (AddResult True (0 < length rows)),
                                    emit e (PlaylistUpdated playlistId trackId (Added (0 < length rows)))
                                      (w\<lparr>db := d'\<rparr>))))
                | _ \<Rightarrow> (Response 400 (Error ''playlistId and trackId must be integers''), w)))"

definition handleAddTrack :: "env \<Rightarrow> request \<Rightarrow> world \<Rightarrow> response \<times> world" where
  "handleAddTrack e req w =
     (case getLocalUserIdFromToken e req (db w) of
        (userId, d) \<Rightarrow> addTrack_as e userId req (w\<lparr>db := d\<rparr>))"

definition removeTrack_as :: "env \<Rightarrow> int option \<Rightarrow> request \<Rightarrow> world \<Rightarrow> response \<times> world" where
  "removeTrack_as e userId req w =
     (case userId of
        None \<Rightarrow> (Response 401 (Error ''Unauthorized''), w)
      | Some uid \<Rightarrow>
          if uid = 0 then (Response 401 (Error ''Unauthorized''), w)
          else (case (parseInt (p_playlistId req), parseIntField (b_trackId req)) of
                  (Finite playlistId, Finite trackId) \<Rightarrow>
                    (case q_select_playlist_owner (db w) playlistId of
                       Inl _ \<Rightarrow> (Response 500 (Error ''Failed to remove track from playlist''), w)
                     | Inr [] \<Rightarrow> (Response 403 (Error ''Forbidden''), w)
                     | Inr (owner # _) \<Rightarrow>
                         if owner \<noteq> uid then (Response 403 (Error ''Forbidden''), w)
                         else (case q_delete_playlist_song (db w) playlistId trackId of
                                 Inl _ \<Rightarrow> (Response 500 (Error ''Failed to remove track from playlist''), w)
                               | Inr (rowCount, d') \<Rightarrow>
                                   (Response 200 (RemoveResult True rowCount),
                                    emit e (PlaylistUpdated playlistId trackId (Removed True))
                                      (w\<lparr>db := d'\<rparr>))))
                | _ \<Rightarrow> (Response 400 (Error ''playlistId and trackId must be integers''), w)))"

definition handleRemoveTrack :: "env \<Rightarrow> request \<Rightarrow> world \<Rightarrow> response \<times> world" where
  "handleRemoveTrack e req w =
     (case getLocalUserIdFromToken e req (db w) of
        (userId, d) \<Rightarrow> removeTrack_as e userId req (w\<lparr>db := d\<rparr>))"

subsection \<open>The router's POST routes with a playlist id\<close>

datatype handler = HandleAddTrack | HandleRemoveTrack

text \<open>The four registrations, in the order of the file; the first match answers.\<close>

definition post_routes :: "(string \<times> handler) list" where
  "post_routes =
     [(''add-track'', HandleAddTrack), (''remove-track'', HandleRemoveTrack),
      (''add'', HandleAddTrack), (''remove'', HandleRemoveTrack)]"

definition run_handler :: "handler \<Rightarrow> env \<Rightarrow> request \<Rightarrow> world \<Rightarrow> response \<times> world" where
  "run_handler h = (case h of HandleAddTrack \<Rightarrow> handleAddTrack | HandleRemoveTrack \<Rightarrow> handleRemoveTrack)"

text \<open>\<open>POST /:playlistId/<action>\<close>; \<open>None\<close> when no route of this router matches.\<close>

definition router_post :: "string \<Rightarrow> env \<Rightarrow> request \<Rightarrow> world \<Rightarrow> (response \<times> world) option" where
  "router_post action e req w =
     (case map_of post_routes action of
        None \<Rightarrow> None
      | Some h \<Rightarrow> Some (run_handler h e req w))"

section \<open>routes/upload.js\<close>

definition LOCAL_TEST_PATH :: jstring where
  "LOCAL_TEST_PATH = js ''/mnt/data/Screenshot 2025-11-25 at 10.04.22 PM.png''"

text \<open>\<open>.replace(/\s+/g, "_")\<close>: every run of white space becomes one underscore.\<close>

function collapse_ws :: "jstring \<Rightarrow> jstring" where
  "collapse_ws [] = []"
| "collapse_ws (c # cs) =
     (if isSpace c then 95 # collapse_ws (dropWhile isSpace cs)
      else c # collapse_ws cs)"
  by pat_completeness auto
termination
  by (relation "measure length") (auto simp: length_dropWhile_le less_Suc_eq_le)

text \<open>The code units that \<open>[^a-zA-Z0-9_\-\.]\<close> leaves in place.\<close>

definition safe_char :: "int \<Rightarrow> bool" where
  "safe_char c =
     ((97 \<le> c \<and> c \<le> 122) \<or> (65 \<le> c \<and> c \<le> 90) \<or> (48 \<le> c \<and> c \<le> 57)
      \<or> c = 95 \<or> c = 45 \<or> c = 46)"

definition makeSafeName :: "jstring option \<Rightarrow> jstring" where
  "makeSafeName name =
     filter safe_char (collapse_ws (case js_or name (Some (js ''file'')) of None \<Rightarrow> js ''file'' | Some s \<Rightarrow> s))"

text \<open>The decimal digits of \<open>Date.now()\<close> inside a template string.\<close>

function showNat :: "nat \<Rightarrow> jstring" where
  "showNat n =
     (if n < 10 then [48 + int n]
      else showNat (n div 10) @ [48 + int (n mod 10)])"
  by pat_completeness auto
termination
  by (relation "measure id") auto

declare showNat.simps [simp del]

text \<open>
  \<open>uploadBuffer\<close> throws when the store reports an error, and otherwise returns
  \<open>data?.publicUrl || null\<close>. Every call is recorded.
\<close>

definition uploadBuffer :: "env \<Rightarrow> string \<Rightarrow> jstring \<Rightarrow> world \<Rightarrow> (unit + jstring option) \<times> world" where
  "uploadBuffer e bucket filePath w =
     (case putObject e bucket filePath of
        PutFailed \<Rightarrow> (Inl (), w\<lparr>store_calls := store_calls w @ [(bucket, filePath)]\<rparr>)
      | PutOk url \<Rightarrow> (Inr (js_or url None), w\<lparr>store_calls := store_calls w @ [(bucket, filePath)]\<rparr>))"








text \<open>The optional cover upload: the URL and the path it leaves.\<close>

definition upload_cover ::
  "env \<Rightarrow> upload_file option \<Rightarrow> world \<Rightarrow> (jstring option \<times> jstring option) \<times> world" where
  "upload_cover e cover w =
     (case cover of
        None \<Rightarrow> ((Some LOCAL_TEST_PATH, None), w)
      | Some c \<Rightarrow>
          (let coverPath = js ''covers/'' @ showNat (date_now e) @ js ''_'' @ makeSafeName (originalname c)
           in case uploadBuffer e ''Tracks'' coverPath w of
                (Inl _, w') \<Rightarrow>
                  ((Some LOCAL_TEST_PATH,
                    Some (js ''debug/covers/'' @ showNat (date_now e) @ js ''_''
                            @ makeSafeName (originalname c))), w')
              | (Inr url, w') \<Rightarrow> ((url, Some coverPath), w')))"


section \<open>The spec's reading of the uploader-name chain\<close>






section \<open>A small deployment to run the routes on\<close>

text \<open>
  Ann (subject \<open>9f1c\<close>, user 1) owns playlist 1, which holds track 3; Bob (user 2) owns
  playlist 2. The token \<open>tok\<close> is Ann's. The object store refuses every upload.
\<close>

definition ex_profile :: profile where
  "ex_profile = \<lparr>sub = js ''9f1c'', meta_name = Some (js ''Ann''), email = Some (js ''ann@example.org'')\<rparr>"

definition ex_env :: env where
  "ex_env =
     \<lparr>getUser = (\<lambda>t. if t = js ''tok'' then Answer (Some ex_profile) False else Answer None True),
      putObject = (\<lambda>b k. PutFailed),
      json_parse = (\<lambda>c. JsonThrows),
      io = IoPresent,
      date_now = 1700\<rparr>"

definition ex_db :: datastore where
  "ex_db =
     \<lparr>online = True, db_clock = 5,
      users = [\<lparr>u_id = 1, u_name = Some (js ''Ann''), u_email = Some (js ''ann@example.org''),
                 u_auth_user_id = js ''9f1c''\<rparr>,
               \<lparr>u_id = 2, u_name = Some (js ''Bob''), u_email = None, u_auth_user_id = js ''77aa''\<rparr>],
      users_seq = 2,
      playlists = [\<lparr>pl_id = 1, pl_user_id = 1, pl_name = js ''Focus''\<rparr>,
                   \<lparr>pl_id = 2, pl_user_id = 2, pl_name = js ''Run''\<rparr>],
      playlist_songs = [\<lparr>ps_playlist_id = 1, ps_track_id = 3, ps_added_at = 4\<rparr>],
      tracks = [], tracks_seq = 0\<rparr>"

definition ex_world :: world where
  "ex_world = \<lparr>db = ex_db, emitted = [], store_calls = []\<rparr>"

text \<open>Ann's request on playlist 1 with track 7 in the body, and nothing else.\<close>

definition ex_req :: request where
  "ex_req =
     \<lparr>h_authorization = Some (js ''Bearer tok''), c_authorization = None, c_token = None, c_user = None,
      p_playlistId = js ''1'', b_trackId = Some (js ''7''),
      b_title = None, b_artist_name = None, b_artist = None, b_uploader_name = None, b_userId = None,
      f_audio = None, f_cover = None\<rparr>"

definition ex_audio :: upload_file where
  "ex_audio = \<lparr>originalname = Some (js ''night drive.mp3''), mimetype = Some (js ''audio/mpeg''),
               file_size = 1024\<rparr>"

text \<open>Ann's upload of \<open>Night Drive\<close>.\<close>

definition ex_upload :: request where
  "ex_upload = ex_req\<lparr>b_title := Some (js '' Night Drive ''), f_audio := Some ex_audio\<rparr>"

text \<open>The same database before Ann was ever seen.\<close>

definition ex_db_fresh :: datastore where
  "ex_db_fresh =
     ex_db\<lparr>users := [\<lparr>u_id = 2, u_name = Some (js ''Bob''), u_email = None, u_auth_user_id = js ''77aa''\<rparr>]\<rparr>"

text \<open>
  An upload without a token whose user cookie parses to the name \<open>Cy\<close>, on a deployment
  whose \<open>JSON.parse\<close> reads that cookie.
\<close>

definition ex_cookie_env :: env where
  "ex_cookie_env = ex_env\<lparr>json_parse := (\<lambda>c. if c = js ''cy'' then JsonUser (Some (js ''Cy'')) None else JsonThrows)\<rparr>"

definition ex_cookie_upload :: request where
  "ex_cookie_upload = ex_upload\<lparr>h_authorization := None, c_user := Some (js ''cy'')\<rparr>"

text \<open>A run of 400 nines, and U+00A0 between two spaces.\<close>

definition ex_huge :: jstring where
  "ex_huge = replicate 400 57"


section \<open>Facts about the datastore and the resolver\<close>

lemmas ex_defs = ex_env_def ex_req_def ex_world_def ex_db_def ex_profile_def ex_upload_def
  ex_audio_def ex_db_fresh_def ex_cookie_env_def ex_cookie_upload_def js_def

text \<open>A run of 400 nines is past the largest double.\<close>

lemma parseInt_huge: "parseInt ex_huge = Infinite"
  by code_simp

lemma find_snoc:
  "find P (xs @ [x]) = (case find P xs of None \<Rightarrow> (if P x then Some x else None) | Some y \<Rightarrow> Some y)"
  by (induction xs) auto

lemma find_None_subject:
  "find (\<lambda>r. u_auth_user_id r = s) us = None \<longleftrightarrow> s \<notin> set (map u_auth_user_id us)"
  by (induction us) auto

lemma find_Some_subject:
  "find (\<lambda>r. u_auth_user_id r = s) us = Some r \<Longrightarrow> s \<in> u_auth_user_id ` set us"
  by (induction us) (auto split: if_splits)

lemma count_subject_distinct:
  "distinct (map u_auth_user_id us) \<Longrightarrow> s \<in> u_auth_user_id ` set us \<Longrightarrow>
   length (filter (\<lambda>r. u_auth_user_id r = s) us) = 1"
proof (induction us)
  case Nil
  then show ?case by simp
next
  case (Cons a us)
  show ?case
  proof (cases "u_auth_user_id a = s")
    case True
    with Cons.prems have "s \<notin> u_auth_user_id ` set us" by auto
    then have "filter (\<lambda>r. u_auth_user_id r = s) us = []"
      by (auto simp: filter_empty_conv)
    with True show ?thesis by simp
  next
    case False
    with Cons show ?thesis by auto
  qed
qed

lemma count_subject_absent:
  "s \<notin> u_auth_user_id ` set us \<Longrightarrow> filter (\<lambda>r. u_auth_user_id r = s) us = []"
  by (auto simp: filter_empty_conv)

lemma resolve_lookup_online:
  "resolve_lookup e req d =
     (case token_profile e req of
        None \<Rightarrow> Resolved None
      | Some p \<Rightarrow>
          if \<not> online d then Resolved None
          else (case find (\<lambda>r. u_auth_user_id r = sub p) (users d) of
                  None \<Rightarrow> Unseen p
                | Some r \<Rightarrow> Resolved (Some (u_id r))))"
  by (simp add: resolve_lookup_def q_select_user_id_def split: option.splits)

lemma resolve_insert_keeps:
  "resolve_insert p d = (r, d1) \<Longrightarrow>
     online d1 = online d \<and> playlists d1 = playlists d \<and> playlist_songs d1 = playlist_songs d
     \<and> tracks d1 = tracks d \<and> db_clock d1 = db_clock d"
  by (auto simp: resolve_insert_def q_insert_user_def Let_def split: if_splits)

lemma resolve_keeps:
  "getLocalUserIdFromToken e req d = (r, d1) \<Longrightarrow>
     online d1 = online d \<and> playlists d1 = playlists d \<and> playlist_songs d1 = playlist_songs d
     \<and> tracks d1 = tracks d \<and> db_clock d1 = db_clock d"
  by (auto simp: getLocalUserIdFromToken_def dest: resolve_insert_keeps split: lookup_result.splits)

lemma resolve_Some:
  "getLocalUserIdFromToken e req d = (Some u, d1) \<Longrightarrow>
     online d \<and> (\<exists>p r. token_profile e req = Some p \<and>
        find (\<lambda>r. u_auth_user_id r = sub p) (users d1) = Some r \<and> u_id r = u)"
  by (auto simp: getLocalUserIdFromToken_def resolve_lookup_online resolve_insert_def q_insert_user_def
        Let_def find_snoc find_None_subject
        dest: find_Some_subject split: option.splits if_splits)

lemma resolve_found:
  "token_profile e req = Some p \<Longrightarrow> online d \<Longrightarrow>
   find (\<lambda>r. u_auth_user_id r = sub p) (users d) = Some r \<Longrightarrow>
   getLocalUserIdFromToken e req d = (Some (u_id r), d)"
  by (simp add: getLocalUserIdFromToken_def resolve_lookup_online)

lemma resolve_unseen:
  "token_profile e req = Some p \<Longrightarrow> online d \<Longrightarrow>
   find (\<lambda>r. u_auth_user_id r = sub p) (users d) = None \<Longrightarrow>
   getLocalUserIdFromToken e req d =
     (Some (users_seq d + 1),
      d\<lparr>users := users d @ [\<lparr>u_id = users_seq d + 1, u_name = js_or (meta_name p) None,
                               u_email = js_or (email p) None, u_auth_user_id = sub p\<rparr>],
        users_seq := users_seq d + 1\<rparr>)"
  using find_None_subject [of "sub p" "users d"]
  by (simp add: getLocalUserIdFromToken_def resolve_lookup_online resolve_insert_def q_insert_user_def
        Let_def)

lemma resolve_stable:
  assumes "getLocalUserIdFromToken e req d = (Some u, d1)" "users d2 = users d1" "online d2"
  shows "getLocalUserIdFromToken e req d2 = (Some u, d2)"
proof -
  from resolve_Some [OF assms(1)] obtain p r where
    "token_profile e req = Some p" "find (\<lambda>r. u_auth_user_id r = sub p) (users d1) = Some r" "u_id r = u"
    by blast
  with assms(2,3) resolve_found [of e req p d2 r] show ?thesis by simp
qed

section \<open>Facts about the playlist handlers\<close>

lemma db_emit [simp]: "db (emit e ev w) = db w"
  by (simp add: emit_def split: io_handle.splits)


lemma handleAddTrack_resolved:
  "getLocalUserIdFromToken e req (db w) = (r, d) \<Longrightarrow>
     handleAddTrack e req w = addTrack_as e r req (w\<lparr>db := d\<rparr>)"
  by (simp add: handleAddTrack_def)

lemma handleRemoveTrack_resolved:
  "getLocalUserIdFromToken e req (db w) = (r, d) \<Longrightarrow>
     handleRemoveTrack e req w = removeTrack_as e r req (w\<lparr>db := d\<rparr>)"
  by (simp add: handleRemoveTrack_def)

lemma addTrack_as_owner:
  assumes "u \<noteq> 0" "parseInt (p_playlistId req) = Finite pid" "parseIntField (b_trackId req) = Finite tid"
    "pg_integer pid" "pg_integer tid"
    "online (db w)" "find (\<lambda>r. pl_id r = pid) (playlists (db w)) = Some pl" "pl_user_id pl = u"
  shows "addTrack_as e (Some u) req w =
     (Response 200 (AddResult True (\<not> is_member (db w) pid tid)),
      emit e (PlaylistUpdated pid tid (Added (\<not> is_member (db w) pid tid)))
        (w\<lparr>db := (if is_member (db w) pid tid then db w
                   else (db w)\<lparr>playlist_songs := playlist_songs (db w) @
                      [\<lparr>ps_playlist_id = pid, ps_track_id = tid, ps_added_at = db_clock (db w)\<rparr>]\<rparr>)\<rparr>))"
  using assms
  by (simp add: addTrack_as_def q_select_playlist_owner_def q_insert_playlist_song_def Let_def)


lemma as_rejected:
  assumes "u \<noteq> 0" "parseInt (p_playlistId req) = Finite pid" "pg_integer pid" "online (db w)"
    "case find (\<lambda>r. pl_id r = pid) (playlists (db w)) of None \<Rightarrow> True | Some pl \<Rightarrow> pl_user_id pl \<noteq> u"
  shows "addTrack_as e (Some u) req w =
           ((if isInteger (parseIntField (b_trackId req)) then Response 403 (Error ''Forbidden'')
             else Response 400 (Error ''playlistId and trackId must be integers'')), w)"
    and "removeTrack_as e (Some u) req w =
           ((if isInteger (parseIntField (b_trackId req)) then Response 403 (Error ''Forbidden'')
             else Response 400 (Error ''playlistId and trackId must be integers'')), w)"
  using assms
  by (cases "parseIntField (b_trackId req)";
      auto simp: addTrack_as_def removeTrack_as_def isInteger_def q_select_playlist_owner_def
           split: option.splits)+

lemma as_bad_playlistId:
  assumes "u \<noteq> 0" "\<not> isInteger (parseInt (p_playlistId req))"
  shows "addTrack_as e (Some u) req w =
           (Response 400 (Error ''playlistId and trackId must be integers''), w)"
    and "removeTrack_as e (Some u) req w =
           (Response 400 (Error ''playlistId and trackId must be integers''), w)"
  using assms
  by (cases "parseInt (p_playlistId req)"; simp add: addTrack_as_def removeTrack_as_def isInteger_def)+


text \<open>
  Claim C1, as the code has it. The caller is authenticated (the resolver answers a
  non-zero id \<open>u\<close>), both ids pass the handler's integer check and fit the database's
  integer columns, and the playlist's row names \<open>u\<close> as owner. Then two calls of
  \<open>handleAddTrack\<close> in a row both answer 200. The first answers \<open>inserted: true\<close> exactly
  when the pair was not yet a member (the insert does nothing on a conflict); the second
  always answers \<open>inserted: false\<close> and leaves the datastore, and with it the membership
  set, as the first call left it; after the first call the pair is a member.
\<close>

theorem addTrack_twice:
  assumes auth: "getLocalUserIdFromToken e req (db w) = (Some u, d1)" and nz: "u \<noteq> 0"
    and pid: "parseInt (p_playlistId req) = Finite pid" and prng: "pg_integer pid"
    and tid: "parseIntField (b_trackId req) = Finite tid" and trng: "pg_integer tid"
    and pl: "find (\<lambda>r. pl_id r = pid) (playlists (db w)) = Some pl" and own: "pl_user_id pl = u"
  shows "fst (handleAddTrack e req w) = Response 200 (AddResult True (\<not> is_member (db w) pid tid))
       \<and> fst (handleAddTrack e req (snd (handleAddTrack e req w))) = Response 200 (AddResult True False)
       \<and> db (snd (handleAddTrack e req (snd (handleAddTrack e req w)))) = db (snd (handleAddTrack e req w))
       \<and> membership (db (snd (handleAddTrack e req (snd (handleAddTrack e req w))))) =
           membership (db (snd (handleAddTrack e req w)))
       \<and> membership (db (snd (handleAddTrack e req w))) = insert (pid, tid) (membership (db w))"
proof -
  from resolve_keeps [OF auth] resolve_Some [OF auth]
  have keep: "online d1" "playlists d1 = playlists (db w)" "playlist_songs d1 = playlist_songs (db w)"
    by simp_all
  then have mem: "is_member d1 pid tid = is_member (db w) pid tid"
    by (simp add: is_member_def)
  let ?w1 = "w\<lparr>db := d1\<rparr>"
  have first: "handleAddTrack e req w = addTrack_as e (Some u) req ?w1"
    by (rule handleAddTrack_resolved [OF auth])
  note a1 = addTrack_as_owner [of u req pid tid ?w1 pl e]
  from nz pid tid prng trng keep pl own have r1: "addTrack_as e (Some u) req ?w1 =
     (Response 200 (AddResult True (\<not> is_member (db w) pid tid)),
      emit e (PlaylistUpdated pid tid (Added (\<not> is_member (db w) pid tid)))
        (?w1\<lparr>db := (if is_member (db w) pid tid then d1
                   else d1\<lparr>playlist_songs := playlist_songs d1 @
                      [\<lparr>ps_playlist_id = pid, ps_track_id = tid, ps_added_at = db_clock d1\<rparr>]\<rparr>)\<rparr>))"
    using a1 by (simp add: mem)
  define d2 where "d2 = db (snd (handleAddTrack e req w))"
  have d2: "d2 = (if is_member (db w) pid tid then d1
                   else d1\<lparr>playlist_songs := playlist_songs d1 @
                      [\<lparr>ps_playlist_id = pid, ps_track_id = tid, ps_added_at = db_clock d1\<rparr>]\<rparr>)"
    by (simp add: d2_def first r1)
  have d2_facts: "users d2 = users d1" "online d2" "playlists d2 = playlists (db w)"
    "is_member d2 pid tid"
    using keep mem by (auto simp: d2 is_member_def)
  let ?w2 = "snd (handleAddTrack e req w)"
  have auth2: "getLocalUserIdFromToken e req (db ?w2) = (Some u, d2)"
    using resolve_stable [OF auth d2_facts(1,2)] by (simp add: d2_def)
  have second: "handleAddTrack e req ?w2 = addTrack_as e (Some u) req (?w2\<lparr>db := d2\<rparr>)"
    by (rule handleAddTrack_resolved [OF auth2])
  from nz pid tid prng trng d2_facts pl own
  have r2: "addTrack_as e (Some u) req (?w2\<lparr>db := d2\<rparr>) =
      (Response 200 (AddResult True False),
       emit e (PlaylistUpdated pid tid (Added False)) (?w2\<lparr>db := d2\<rparr>))"
    using addTrack_as_owner [of u req pid tid "?w2\<lparr>db := d2\<rparr>" pl e] by simp
  have m: "membership d2 = insert (pid, tid) (membership (db w))"
    using keep by (auto simp: d2 membership_def is_member_def)
  show ?thesis
    using first r1 second r2 m by (simp add: d2_def)
qed

text \<open>
  Ann adds track 7, which playlist 1 does not hold yet, twice.
\<close>

theorem addTrack_twice_witness:
  "getLocalUserIdFromToken ex_env ex_req (db ex_world) = (Some 1, ex_db)
   \<and> (1::int) \<noteq> 0
   \<and> parseInt (p_playlistId ex_req) = Finite 1 \<and> pg_integer 1
   \<and> parseIntField (b_trackId ex_req) = Finite 7 \<and> pg_integer 7
   \<and> find (\<lambda>r. pl_id r = 1) (playlists (db ex_world)) = Some \<lparr>pl_id = 1, pl_user_id = 1, pl_name = js ''Focus''\<rparr>
   \<and> \<not> is_member (db ex_world) 1 7
   \<and> fst (handleAddTrack ex_env ex_req ex_world) = Response 200 (AddResult True True)
   \<and> fst (handleAddTrack ex_env ex_req (snd (handleAddTrack ex_env ex_req ex_world))) =
        Response 200 (AddResult True False)
   \<and> db (snd (handleAddTrack ex_env ex_req (snd (handleAddTrack ex_env ex_req ex_world)))) =
        db (snd (handleAddTrack ex_env ex_req ex_world))
   \<and> membership (db (snd (handleAddTrack ex_env ex_req (snd (handleAddTrack ex_env ex_req ex_world))))) =
        membership (db (snd (handleAddTrack ex_env ex_req ex_world)))
   \<and> membership (db (snd (handleAddTrack ex_env ex_req ex_world))) = insert (1, 7) (membership (db ex_world))"
proof -
  have h1: "getLocalUserIdFromToken ex_env ex_req (db ex_world) = (Some 1, ex_db)"
    by code_simp
  have h2: "parseInt (p_playlistId ex_req) = Finite 1" by code_simp
  have h3: "parseIntField (b_trackId ex_req) = Finite 7" by code_simp
  have h4: "find (\<lambda>r. pl_id r = 1) (playlists (db ex_world)) = Some \<lparr>pl_id = 1, pl_user_id = 1, pl_name = js ''Focus''\<rparr>"
    by (simp add: ex_defs)
  have h5: "\<not> is_member (db ex_world) 1 7" by (simp add: ex_defs is_member_def)
  have rng: "pg_integer 1" "pg_integer 7" by (simp_all add: pg_integer_def)
  from addTrack_twice [OF h1 _ h2 rng(1) h3 rng(2) h4] h1 h2 h3 h4 h5 rng show ?thesis by simp
qed

text \<open>
  Ann adds track 3, which playlist 1 already holds: the first of her two calls answers
  \<open>inserted: false\<close>. And she adds a track id of 400 nines: the answer is 400.
\<close>

theorem addTrack_first_call_counterexample:
  "getLocalUserIdFromToken ex_env (ex_req\<lparr>b_trackId := Some (js ''3'')\<rparr>) (db ex_world) = (Some 1, ex_db)
   \<and> q_select_playlist_owner ex_db 1 = Inr [1]
   \<and> parseInt (p_playlistId (ex_req\<lparr>b_trackId := Some (js ''3'')\<rparr>)) = Finite 1
   \<and> parseIntField (b_trackId (ex_req\<lparr>b_trackId := Some (js ''3'')\<rparr>)) = Finite 3
   \<and> fst (handleAddTrack ex_env (ex_req\<lparr>b_trackId := Some (js ''3'')\<rparr>) ex_world) =
        Response 200 (AddResult True False)
   \<and> getLocalUserIdFromToken ex_env (ex_req\<lparr>b_trackId := Some ex_huge\<rparr>) (db ex_world) = (Some 1, ex_db)
   \<and> parseIntField (b_trackId (ex_req\<lparr>b_trackId := Some ex_huge\<rparr>)) = Infinite
   \<and> fst (handleAddTrack ex_env (ex_req\<lparr>b_trackId := Some ex_huge\<rparr>) ex_world) =
        Response 400 (Error ''playlistId and trackId must be integers'')"
proof -
  let ?big = "ex_req\<lparr>b_trackId := Some ex_huge\<rparr>"
  have member: "getLocalUserIdFromToken ex_env (ex_req\<lparr>b_trackId := Some (js ''3'')\<rparr>) (db ex_world) = (Some 1, ex_db)
     \<and> q_select_playlist_owner ex_db 1 = Inr [1]
     \<and> parseInt (p_playlistId (ex_req\<lparr>b_trackId := Some (js ''3'')\<rparr>)) = Finite 1
     \<and> parseIntField (b_trackId (ex_req\<lparr>b_trackId := Some (js ''3'')\<rparr>)) = Finite 3
     \<and> fst (handleAddTrack ex_env (ex_req\<lparr>b_trackId := Some (js ''3'')\<rparr>) ex_world) =
          Response 200 (AddResult True False)"
    by code_simp
  have r: "getLocalUserIdFromToken ex_env ?big (db ex_world) = (Some 1, ex_db)"
    by (simp add: getLocalUserIdFromToken_def resolve_lookup_def token_profile_def bearer_token_def
          js_or_def truthy_def nth_opt_def q_select_user_id_def ex_defs)
  have t: "parseIntField (b_trackId ?big) = Infinite"
    by (simp add: parseIntField_def parseInt_huge ex_req_def)
  have "fst (handleAddTrack ex_env ?big ex_world) =
          Response 400 (Error ''playlistId and trackId must be integers'')"
    using t by (simp add: handleAddTrack_resolved [OF r] addTrack_as_def split: jsnum.splits)
  with member r t show ?thesis by simp
qed

text \<open>
  Claim C4, as the code has it. A resolved user (non-zero id \<open>u\<close>) who is not the owner
  recorded on the target playlist gets, from both handlers, 403 Forbidden when the
  supplied track id passes the integer check (whatever track it names: no table is asked
  about it) and 400 when it does not: the integer check comes before the ownership
  check. In both cases no membership row changes.
\<close>

theorem non_owner_forbidden:
  assumes auth: "getLocalUserIdFromToken e req (db w) = (Some u, d1)" and nz: "u \<noteq> 0"
    and pid: "parseInt (p_playlistId req) = Finite pid" and prng: "pg_integer pid"
    and pl: "find (\<lambda>r. pl_id r = pid) (playlists (db w)) = Some pl" and own: "pl_user_id pl \<noteq> u"
  shows "handleAddTrack e req w =
           ((if isInteger (parseIntField (b_trackId req)) then Response 403 (Error ''Forbidden'')
             else Response 400 (Error ''playlistId and trackId must be integers'')), w\<lparr>db := d1\<rparr>)
       \<and> handleRemoveTrack e req w =
           ((if isInteger (parseIntField (b_trackId req)) then Response 403 (Error ''Forbidden'')
             else Response 400 (Error ''playlistId and trackId must be integers'')), w\<lparr>db := d1\<rparr>)
       \<and> playlist_songs d1 = playlist_songs (db w)"
proof -
  from resolve_keeps [OF auth] resolve_Some [OF auth]
  have keep: "online d1" "playlists d1 = playlists (db w)" "playlist_songs d1 = playlist_songs (db w)"
    by simp_all
  with as_rejected [of u req pid "w\<lparr>db := d1\<rparr>" e] nz pid prng pl own
  show ?thesis
    by (simp add: handleAddTrack_resolved [OF auth] handleRemoveTrack_resolved [OF auth])
qed

text \<open>
  Ann on Bob's playlist 2: with track 7, which no table knows, and with a track id of
  400 nines.
\<close>

theorem non_owner_forbidden_witness:
  "getLocalUserIdFromToken ex_env (ex_req\<lparr>p_playlistId := js ''2''\<rparr>) (db ex_world) = (Some 1, ex_db)
   \<and> (1::int) \<noteq> 0
   \<and> parseInt (p_playlistId (ex_req\<lparr>p_playlistId := js ''2''\<rparr>)) = Finite 2 \<and> pg_integer 2
   \<and> find (\<lambda>r. pl_id r = 2) (playlists (db ex_world)) = Some \<lparr>pl_id = 2, pl_user_id = 2, pl_name = js ''Run''\<rparr>
   \<and> pl_user_id \<lparr>pl_id = 2, pl_user_id = 2, pl_name = js ''Run''\<rparr> \<noteq> 1
   \<and> isInteger (parseIntField (b_trackId (ex_req\<lparr>p_playlistId := js ''2''\<rparr>)))
   \<and> handleAddTrack ex_env (ex_req\<lparr>p_playlistId := js ''2''\<rparr>) ex_world =
        (Response 403 (Error ''Forbidden''), ex_world\<lparr>db := ex_db\<rparr>)
   \<and> handleRemoveTrack ex_env (ex_req\<lparr>p_playlistId := js ''2''\<rparr>) ex_world =
        (Response 403 (Error ''Forbidden''), ex_world\<lparr>db := ex_db\<rparr>)
   \<and> \<not> isInteger (parseIntField (b_trackId (ex_req\<lparr>p_playlistId := js ''2'', b_trackId := Some ex_huge\<rparr>)))
   \<and> handleAddTrack ex_env (ex_req\<lparr>p_playlistId := js ''2'', b_trackId := Some ex_huge\<rparr>) ex_world =
        (Response 400 (Error ''playlistId and trackId must be integers''), ex_world\<lparr>db := ex_db\<rparr>)
   \<and> handleRemoveTrack ex_env (ex_req\<lparr>p_playlistId := js ''2'', b_trackId := Some ex_huge\<rparr>) ex_world =
        (Response 400 (Error ''playlistId and trackId must be integers''), ex_world\<lparr>db := ex_db\<rparr>)
   \<and> playlist_songs ex_db = playlist_songs (db ex_world)"
proof -
  let ?req = "ex_req\<lparr>p_playlistId := js ''2''\<rparr>"
  let ?bad = "ex_req\<lparr>p_playlistId := js ''2'', b_trackId := Some ex_huge\<rparr>"
  have h1: "getLocalUserIdFromToken ex_env ?req (db ex_world) = (Some 1, ex_db)" by code_simp
  have h2: "parseInt (p_playlistId ?req) = Finite 2" by code_simp
  have b1: "getLocalUserIdFromToken ex_env ?bad (db ex_world) = (Some 1, ex_db)"
    by (simp add: getLocalUserIdFromToken_def resolve_lookup_def token_profile_def bearer_token_def
          js_or_def truthy_def nth_opt_def q_select_user_id_def ex_defs)
  have b2: "parseInt (p_playlistId ?bad) = Finite 2"
    using h2 by (simp add: ex_req_def)
  have rng: "pg_integer 2" by (simp add: pg_integer_def)
  have h4: "find (\<lambda>r. pl_id r = 2) (playlists (db ex_world)) = Some \<lparr>pl_id = 2, pl_user_id = 2, pl_name = js ''Run''\<rparr>"
    by (simp add: ex_defs)
  have t1: "isInteger (parseIntField (b_trackId ?req))" by code_simp
  have t2: "\<not> isInteger (parseIntField (b_trackId ?bad))"
    by (simp add: parseIntField_def parseInt_huge isInteger_def ex_req_def)
  from non_owner_forbidden [OF h1 _ h2 rng h4] non_owner_forbidden [OF b1 _ b2 rng h4]
    h1 h2 rng h4 t1 t2
  show ?thesis by simp
qed

text \<open>
  Ann on Bob's playlist 2 with the track id \<open>abc\<close>: the answer is 400, not 403.
\<close>

theorem non_owner_bad_trackId_counterexample:
  "getLocalUserIdFromToken ex_env (ex_req\<lparr>p_playlistId := js ''2'', b_trackId := Some (js ''abc'')\<rparr>) (db ex_world)
     = (Some 1, ex_db)
   \<and> q_select_playlist_owner ex_db 2 = Inr [2]
   \<and> handleAddTrack ex_env (ex_req\<lparr>p_playlistId := js ''2'', b_trackId := Some (js ''abc'')\<rparr>) ex_world =
        (Response 400 (Error ''playlistId and trackId must be integers''), ex_world)
   \<and> handleRemoveTrack ex_env (ex_req\<lparr>p_playlistId := js ''2'', b_trackId := Some (js ''abc'')\<rparr>) ex_world =
        (Response 400 (Error ''playlistId and trackId must be integers''), ex_world)"
  by code_simp

text \<open>
  Claim C10, as the code has it. The caller is authenticated (the resolver answers a
  non-zero id) and the playlist id names no row: if it passes the integer check at all,
  it fits the database's integer column and no row of \<open>playlists\<close> has it. Then both
  handlers answer 403 Forbidden, the very response a foreign playlist gets, when both ids
  pass the integer check, and 400 when one does not. No membership row is inserted or
  deleted.
\<close>

theorem missing_playlist_forbidden:
  assumes auth: "getLocalUserIdFromToken e req (db w) = (Some u, d1)" and nz: "u \<noteq> 0"
    and norow: "\<forall>pid. parseInt (p_playlistId req) = Finite pid \<longrightarrow>
                  pg_integer pid \<and> find (\<lambda>r. pl_id r = pid) (playlists (db w)) = None"
  shows "handleAddTrack e req w =
           ((if isInteger (parseInt (p_playlistId req)) \<and> isInteger (parseIntField (b_trackId req))
             then Response 403 (Error ''Forbidden'')
             else Response 400 (Error ''playlistId and trackId must be integers'')), w\<lparr>db := d1\<rparr>)
       \<and> handleRemoveTrack e req w =
           ((if isInteger (parseInt (p_playlistId req)) \<and> isInteger (parseIntField (b_trackId req))
             then Response 403 (Error ''Forbidden'')
             else Response 400 (Error ''playlistId and trackId must be integers'')), w\<lparr>db := d1\<rparr>)
       \<and> playlist_songs d1 = playlist_songs (db w)"
proof -
  from resolve_keeps [OF auth] resolve_Some [OF auth]
  have keep: "online d1" "playlists d1 = playlists (db w)" "playlist_songs d1 = playlist_songs (db w)"
    by simp_all
  note run = handleAddTrack_resolved [OF auth] handleRemoveTrack_resolved [OF auth]
  show ?thesis
  proof (cases "isInteger (parseInt (p_playlistId req))")
    case False
    with as_bad_playlistId [of u req e "w\<lparr>db := d1\<rparr>"] nz keep show ?thesis
      by (simp add: run)
  next
    case True
    then obtain pid where pid: "parseInt (p_playlistId req) = Finite pid"
      by (cases "parseInt (p_playlistId req)") (simp_all add: isInteger_def)
    with norow have "pg_integer pid" "find (\<lambda>r. pl_id r = pid) (playlists (db w)) = None"
      by simp_all
    with as_rejected [of u req pid "w\<lparr>db := d1\<rparr>" e] nz pid keep True show ?thesis
      by (simp add: run)
  qed
qed

text \<open>
  Ann on playlist 9, which does not exist.
\<close>

theorem missing_playlist_forbidden_witness:
  "getLocalUserIdFromToken ex_env (ex_req\<lparr>p_playlistId := js ''9''\<rparr>) (db ex_world) = (Some 1, ex_db)
   \<and> (1::int) \<noteq> 0
   \<and> parseInt (p_playlistId (ex_req\<lparr>p_playlistId := js ''9''\<rparr>)) = Finite 9 \<and> pg_integer 9
   \<and> find (\<lambda>r. pl_id r = 9) (playlists (db ex_world)) = None
   \<and> isInteger (parseIntField (b_trackId (ex_req\<lparr>p_playlistId := js ''9''\<rparr>)))
   \<and> handleAddTrack ex_env (ex_req\<lparr>p_playlistId := js ''9''\<rparr>) ex_world =
        (Response 403 (Error ''Forbidden''), ex_world\<lparr>db := ex_db\<rparr>)
   \<and> handleRemoveTrack ex_env (ex_req\<lparr>p_playlistId := js ''9''\<rparr>) ex_world =
        (Response 403 (Error ''Forbidden''), ex_world\<lparr>db := ex_db\<rparr>)
   \<and> playlist_songs ex_db = playlist_songs (db ex_world)"
proof -
  let ?req = "ex_req\<lparr>p_playlistId := js ''9''\<rparr>"
  have h1: "getLocalUserIdFromToken ex_env ?req (db ex_world) = (Some 1, ex_db)" by code_simp
  have h2: "parseInt (p_playlistId ?req) = Finite 9" by code_simp
  have rng: "pg_integer 9" by (simp add: pg_integer_def)
  have h4: "find (\<lambda>r. pl_id r = 9) (playlists (db ex_world)) = None"
    by (simp add: ex_defs)
  have h5: "\<forall>pid. parseInt (p_playlistId ?req) = Finite pid \<longrightarrow>
              pg_integer pid \<and> find (\<lambda>r. pl_id r = pid) (playlists (db ex_world)) = None"
    using h2 rng h4 by simp
  have t1: "isInteger (parseIntField (b_trackId ?req))" by code_simp
  have p1: "isInteger (parseInt (p_playlistId ?req))" by code_simp
  from missing_playlist_forbidden [OF h1 _ h5] h1 h2 rng h4 t1 p1 show ?thesis by simp
qed

text \<open>
  Ann on playlist 9, which does not exist, with the track id \<open>abc\<close>, and on the
  playlist id \<open>nope\<close>: the answer is 400, not 403.
\<close>

theorem missing_playlist_bad_id_counterexample:
  "getLocalUserIdFromToken ex_env (ex_req\<lparr>p_playlistId := js ''9'', b_trackId := Some (js ''abc'')\<rparr>) (db ex_world)
     = (Some 1, ex_db)
   \<and> q_select_playlist_owner ex_db 9 = Inr []
   \<and> handleAddTrack ex_env (ex_req\<lparr>p_playlistId := js ''9'', b_trackId := Some (js ''abc'')\<rparr>) ex_world =
        (Response 400 (Error ''playlistId and trackId must be integers''), ex_world)
   \<and> handleRemoveTrack ex_env (ex_req\<lparr>p_playlistId := js ''9'', b_trackId := Some (js ''abc'')\<rparr>) ex_world =
        (Response 400 (Error ''playlistId and trackId must be integers''), ex_world)
   \<and> handleAddTrack ex_env (ex_req\<lparr>p_playlistId := js ''nope''\<rparr>) ex_world =
        (Response 400 (Error ''playlistId and trackId must be integers''), ex_world)
   \<and> handleRemoveTrack ex_env (ex_req\<lparr>p_playlistId := js ''nope''\<rparr>) ex_world =
        (Response 400 (Error ''playlistId and trackId must be integers''), ex_world)"
  by code_simp



text \<open>
  Claim C7. When the provider answers a profile for the request's token, the database is
  reachable and no two user rows share a subject, then resolving returns an id, resolving
  again on the resulting database returns the same id and changes nothing (the row is
  found by the lookup, no insert), and exactly one user row carries the subject.
\<close>

theorem resolve_twice_same_id:
  assumes prof: "token_profile e req = Some p" and on: "online d"
    and uniq: "distinct (map u_auth_user_id (users d))"
  shows "fst (getLocalUserIdFromToken e req d) \<noteq> None
       \<and> getLocalUserIdFromToken e req (snd (getLocalUserIdFromToken e req d)) =
           getLocalUserIdFromToken e req d
       \<and> length (filter (\<lambda>r. u_auth_user_id r = sub p) (users (snd (getLocalUserIdFromToken e req d)))) = 1
       \<and> distinct (map u_auth_user_id (users (snd (getLocalUserIdFromToken e req d))))"
proof (cases "find (\<lambda>r. u_auth_user_id r = sub p) (users d)")
  case None
  note r = resolve_unseen [OF prof on None]
  let ?d1 = "snd (getLocalUserIdFromToken e req d)"
  from None have absent: "sub p \<notin> u_auth_user_id ` set (users d)"
    by (simp add: find_None_subject)
  have again: "getLocalUserIdFromToken e req ?d1 = (Some (users_seq d + 1), ?d1)"
    using resolve_stable [of e req d "users_seq d + 1" ?d1 ?d1] r on by simp
  show ?thesis
    using r again absent uniq by (simp add: count_subject_absent)
next
  case (Some r)
  note f = resolve_found [OF prof on Some]
  from find_Some_subject [OF Some] uniq
  have "length (filter (\<lambda>r. u_auth_user_id r = sub p) (users d)) = 1"
    by (rule count_subject_distinct [rotated])
  with f uniq show ?thesis by simp
qed

text \<open>
  Ann is resolved twice, starting before she was ever seen.
\<close>

theorem resolve_twice_same_id_witness:
  "token_profile ex_env ex_req = Some ex_profile \<and> online ex_db_fresh
   \<and> distinct (map u_auth_user_id (users ex_db_fresh))
   \<and> fst (getLocalUserIdFromToken ex_env ex_req ex_db_fresh) = Some 3
   \<and> getLocalUserIdFromToken ex_env ex_req (snd (getLocalUserIdFromToken ex_env ex_req ex_db_fresh)) =
       getLocalUserIdFromToken ex_env ex_req ex_db_fresh
   \<and> length (filter (\<lambda>r. u_auth_user_id r = sub ex_profile)
        (users (snd (getLocalUserIdFromToken ex_env ex_req ex_db_fresh)))) = 1"
proof -
  have h1: "token_profile ex_env ex_req = Some ex_profile" by code_simp
  have h2: "online ex_db_fresh" by (simp add: ex_defs)
  have h3: "distinct (map u_auth_user_id (users ex_db_fresh))" by (simp add: ex_defs)
  have r: "fst (getLocalUserIdFromToken ex_env ex_req ex_db_fresh) = Some 3" by code_simp
  from resolve_twice_same_id [OF h1 h2 h3] h1 h2 h3 r show ?thesis by simp
qed

text \<open>
  Claim C2. The code at the race the claim is about, two first-time resolutions of one
  subject with a valid token. The loser's lookup sees no row; the winner resolves and
  inserts row 3; the loser's insert is refused as a duplicate. A lookup of the subject
  now finds id 3, the id the claim and the function's own comment (an integer id, \<open>null\<close>
  only for an invalid token) call for; the function returns \<open>null\<close> and the handler
  answers 401 Unauthorized.
\<close>

theorem duplicate_insert_race:
  "token_profile ex_env ex_req = Some ex_profile
   \<and> resolve_lookup ex_env ex_req ex_db_fresh = Unseen ex_profile
   \<and> fst (getLocalUserIdFromToken ex_env ex_req ex_db_fresh) = Some 3
   \<and> q_insert_user (snd (getLocalUserIdFromToken ex_env ex_req ex_db_fresh))
        (js_or (meta_name ex_profile) None) (js_or (email ex_profile) None) (sub ex_profile)
        = Inl UniqueViolation
   \<and> q_select_user_id (snd (getLocalUserIdFromToken ex_env ex_req ex_db_fresh)) (sub ex_profile) = Inr [3]
   \<and> fst (resolve_insert ex_profile (snd (getLocalUserIdFromToken ex_env ex_req ex_db_fresh))) = None
   \<and> fst (addTrack_as ex_env
            (fst (resolve_insert ex_profile (snd (getLocalUserIdFromToken ex_env ex_req ex_db_fresh))))
            ex_req ex_world) = Response 401 (Error ''Unauthorized'')"
  by code_simp

text \<open>
  Claim C9. The legacy paths \<open>/:playlistId/add\<close> and \<open>/:playlistId/remove\<close> are routed to
  the handlers of \<open>/:playlistId/add-track\<close> and \<open>/:playlistId/remove-track\<close>: for every
  request and world the response and the resulting world are the same.
\<close>

theorem legacy_routes_same_handler:
  "router_post ''add'' e req w = router_post ''add-track'' e req w
   \<and> router_post ''remove'' e req w = router_post ''remove-track'' e req w
   \<and> router_post ''add-track'' e req w = Some (handleAddTrack e req w)
   \<and> router_post ''remove-track'' e req w = Some (handleRemoveTrack e req w)"
  by (simp add: router_post_def post_routes_def run_handler_def)

section \<open>Facts about the upload route\<close>

lemma js_or_same [simp]: "js_or a a = a"
  by (simp add: js_or_def)

lemma truthy_fallback [simp]: "truthy (js_or x (Some LOCAL_TEST_PATH))"
  by (simp add: js_or_def truthy_def LOCAL_TEST_PATH_def js_def)



lemma upload_cover_db: "upload_cover e c w = (r, w') \<Longrightarrow> db w' = db w"
  by (auto simp: upload_cover_def uploadBuffer_def Let_def split: option.splits put_result.splits)


lemma second_piece [simp]:
  "nth_opt xs (Suc 0) = (case xs of _ # t # _ \<Rightarrow> Some t | _ \<Rightarrow> None)"
  by (simp add: nth_opt_def split: list.splits)

lemma trim_Nil [simp]: "trim [] = []"
  by (simp add: trim_def)




lemma js_or_None [simp]: "js_or None b = b" "js_or (js_or a None) b = js_or a b"
  by (simp_all add: js_or_def truthy_def)

lemma truthy_None [simp]: "\<not> truthy None"
  by (simp add: truthy_def)












end
